theory Spec2Isabelle
  imports Complex_Main
begin

section \<open>Ladder: CAD import pipeline (\<^verbatim>\<open>src/ladder/__init__.py\<close>)\<close>

text \<open>
  Python floats are modelled as real numbers, Python ints as \<open>int\<close> (list indices and
  lengths as \<open>nat\<close>), Python strings as \<open>string\<close>.
\<close>

subsection \<open>Python string helpers\<close>

text \<open>\<^verbatim>\<open>str(n)\<close> for an integer: decimal digits, a leading minus sign when negative.\<close>

definition digit_char :: "nat \<Rightarrow> char" where
  "digit_char d = ''0123456789'' ! d"

fun str_nat :: "nat \<Rightarrow> string" where
  "str_nat n = (if n < 10 then [digit_char n] else str_nat (n div 10) @ [digit_char (n mod 10)])"

declare str_nat.simps [simp del]

definition str_int :: "int \<Rightarrow> string" where
  "str_int i = (if i < 0 then CHR ''-'' # str_nat (nat (- i)) else str_nat (nat i))"

text \<open>\<^verbatim>\<open>needle in haystack\<close> for strings.\<close>

fun str_contains :: "string \<Rightarrow> string \<Rightarrow> bool" where
  "str_contains [] needle = (needle = [])"
| "str_contains (c # cs) needle = (take (length needle) (c # cs) = needle \<or> str_contains cs needle)"

subsection \<open>Import progress state (class \<^verbatim>\<open>ImportProgress\<close>)\<close>

record import_progress =
  total_files :: int
  current_file :: int
  current_filename :: string
  phase :: string
  is_running :: bool
  was_cancelled :: bool

definition init_progress :: import_progress where
  "init_progress =
     \<lparr>total_files = 0, current_file = 0, current_filename = [], phase = [],
      is_running = False, was_cancelled = False\<rparr>"

definition start :: "int \<Rightarrow> import_progress \<Rightarrow> import_progress" where
  "start tot p =
     p\<lparr>total_files := tot, current_file := 0, current_filename := [], phase := [],
       is_running := True, was_cancelled := False\<rparr>"

definition update :: "int \<Rightarrow> string \<Rightarrow> string \<Rightarrow> import_progress \<Rightarrow> import_progress" where
  "update file_index filename ph p =
     p\<lparr>current_file := file_index, current_filename := filename, phase := ph\<rparr>"

definition stop :: "import_progress \<Rightarrow> import_progress" where
  "stop p = p\<lparr>is_running := False\<rparr>"

definition cancel :: "import_progress \<Rightarrow> import_progress" where
  "cancel p = p\<lparr>was_cancelled := True, is_running := False\<rparr>"

definition progress_percent :: "import_progress \<Rightarrow> real" where
  "progress_percent p =
     (if total_files p = 0 then 0
      else
        let base = (real_of_int (current_file p) / real_of_int (total_files p)) * 100;
            base' = (if phase p = ''converting''
                     then base + (0.5 / real_of_int (total_files p)) * 100
                     else base)
        in min base' 100)"

definition status_text :: "import_progress \<Rightarrow> string" where
  "status_text p =
     (if \<not> is_running p then []
      else
        let phase_text = (if phase p = ''converting'' then ''Converting'' else ''Importing'')
        in ''Ladder: '' @ phase_text @ '' '' @ current_filename p @ '' (''
             @ str_int (current_file p + 1) @ ''/'' @ str_int (total_files p) @ '')'')"

subsection \<open>Constants\<close>

definition UNIT_SCALES :: "string \<rightharpoonup> real" where
  "UNIT_SCALES = map_of
     [(''MICROMETERS'', 0.000001),
      (''MILLIMETERS'', 0.001),
      (''CENTIMETERS'', 0.01),
      (''METERS'', 1.0),
      (''INCHES'', 0.0254),
      (''FEET'', 0.3048)]"

subsection \<open>Paths and \<^verbatim>\<open>str.lower\<close>\<close>

text \<open>
  A \<^verbatim>\<open>pathlib.Path\<close> is represented by the attributes the code reads: the whole path
  as a string, the final component (\<^verbatim>\<open>.name\<close>) and its extension (\<^verbatim>\<open>.suffix\<close>).
\<close>

record path =
  path_str :: string
  path_name :: string
  path_suffix :: string

text \<open>
  \<^verbatim>\<open>str.lower\<close> on the ASCII letters; every other character is left as it is.
\<close>

definition lower_char :: "char \<Rightarrow> char" where
  "lower_char c =
     (case map_of (zip ''ABCDEFGHIJKLMNOPQRSTUVWXYZ'' ''abcdefghijklmnopqrstuvwxyz'') c of
        Some l \<Rightarrow> l
      | None \<Rightarrow> c)"

definition lower :: "string \<Rightarrow> string" where
  "lower s = map lower_char s"

text \<open>The tuple of extensions that both loading blocks test (lines 176 and 277).\<close>

definition brep_extensions :: "string list" where
  "brep_extensions = [''.step'', ''.stp'', ''.iges'', ''.igs'', ''.brep'', ''.brp'']"

subsection \<open>The meshing engine as seen by \<^verbatim>\<open>GmshManager\<close>\<close>

text \<open>
  The gmsh module is external. A value of type \<open>gmsh\<close> describes how the engine answers
  during one call of \<^verbatim>\<open>get_model_info\<close> or \<^verbatim>\<open>convert_to_stl\<close>: which API calls
  raise (and with which text), and what the three queries return. Every API call the
  code issues is written to a call log.
\<close>

datatype gmsh_call =
    Initialize
  | SetNumber string real
  | ModelAdd string
  | ImportShapes string
  | Synchronize
  | Merge string
  | GetEntities
  | GetBoundingBox
  | GetEntityName int int
  | Generate nat
  | Write string
  | Finalize

record gmsh =
  raises :: "gmsh_call \<Rightarrow> string option"
  getEntities :: "(int \<times> int) list"
  getBoundingBox :: "real \<times> real \<times> real \<times> real \<times> real \<times> real"
  getEntityName :: "int \<Rightarrow> int \<Rightarrow> string"

text \<open>
  A straight-line sequence of API calls: it stops at the first call that raises and
  yields the exception text (if any) with the calls issued so far.
\<close>

fun run_calls :: "gmsh \<Rightarrow> gmsh_call list \<Rightarrow> string option \<times> gmsh_call list" where
  "run_calls g [] = (None, [])"
| "run_calls g (c # cs) =
     (case raises g c of
        Some e \<Rightarrow> (Some e, [c])
      | None \<Rightarrow> (case run_calls g cs of (r, l) \<Rightarrow> (r, c # l)))"

subsection \<open>\<^verbatim>\<open>GmshManager.get_model_info\<close>\<close>

record bbox =
  bb_min :: "real \<times> real \<times> real"
  bb_max :: "real \<times> real \<times> real"
  bb_size :: "real \<times> real \<times> real"

record model_info =
  valid :: bool
  entities :: int
  volumes :: int
  surfaces :: int
  curves :: int
  points :: int
  bounding_box :: "bbox option"
  estimated_unit :: string
  part_names :: "string list"

definition initial_info :: model_info where
  "initial_info =
     \<lparr>valid = False, entities = 0, volumes = 0, surfaces = 0, curves = 0, points = 0,
      bounding_box = None, estimated_unit = ''UNKNOWN'', part_names = []\<rparr>"

text \<open>The loading block of \<^verbatim>\<open>get_model_info\<close> (lines 174-180).\<close>

definition info_load_calls :: "path \<Rightarrow> gmsh_call list" where
  "info_load_calls input_path =
     (let file_ext = lower (path_suffix input_path) in
      if file_ext \<in> set brep_extensions
      then [ImportShapes (path_str input_path), Synchronize]
      else [Merge (path_str input_path)])"

text \<open>The counting loop (lines 192-200).\<close>

fun count_entities :: "(int \<times> int) list \<Rightarrow> model_info \<Rightarrow> model_info" where
  "count_entities [] info = info"
| "count_entities ((dm, tag) # es) info =
     count_entities es
       (if dm = 0 then info\<lparr>points := points info + 1\<rparr>
        else if dm = 1 then info\<lparr>curves := curves info + 1\<rparr>
        else if dm = 2 then info\<lparr>surfaces := surfaces info + 1\<rparr>
        else if dm = 3 then info\<lparr>volumes := volumes info + 1\<rparr>
        else info)"

text \<open>The unit heuristic (lines 213-221).\<close>

definition estimate_unit :: "real \<Rightarrow> string" where
  "estimate_unit max_dim =
     (if max_dim > 1000 then ''MILLIMETERS''
      else if max_dim > 10 then ''CENTIMETERS''
      else if max_dim > 0.1 then ''METERS''
      else ''MILLIMETERS'')"

text \<open>The bounding-box block with its own \<^verbatim>\<open>try/except: pass\<close> (lines 203-223).\<close>

definition bounding_box_block ::
  "gmsh \<Rightarrow> (int \<times> int) list \<Rightarrow> model_info \<Rightarrow> model_info \<times> gmsh_call list" where
  "bounding_box_block g es info =
     (if es = [] then (info, [])
      else
        case raises g GetBoundingBox of
          Some e \<Rightarrow> (info, [GetBoundingBox])
        | None \<Rightarrow>
            (case getBoundingBox g of
               (xmin, ymin, zmin, xmax, ymax, zmax) \<Rightarrow>
                 let info1 = info\<lparr>bounding_box :=
                       Some \<lparr>bb_min = (xmin, ymin, zmin), bb_max = (xmax, ymax, zmax),
                             bb_size = (xmax - xmin, ymax - ymin, zmax - zmin)\<rparr>\<rparr>;
                     max_dim = max (xmax - xmin) (max (ymax - ymin) (zmax - zmin))
                 in (info1\<lparr>estimated_unit := estimate_unit max_dim\<rparr>, [GetBoundingBox])))"

text \<open>
  The part-name loop of \<^verbatim>\<open>get_model_info\<close> (lines 226-232). An exception from
  \<^verbatim>\<open>getEntityName\<close> ends the loop; the names appended so far stay in the list.
\<close>

fun info_names_loop ::
  "gmsh \<Rightarrow> (int \<times> int) list \<Rightarrow> string list \<Rightarrow> string list \<times> gmsh_call list" where
  "info_names_loop g [] names = (names, [])"
| "info_names_loop g ((dm, tag) # es) names =
     (case raises g (GetEntityName dm tag) of
        Some e \<Rightarrow> (names, [GetEntityName dm tag])
      | None \<Rightarrow>
          (let name = getEntityName g dm tag;
               names1 = (if name \<noteq> [] \<and> name \<notin> set names then names @ [name] else names)
           in case info_names_loop g es names1 of
                (r, l) \<Rightarrow> (r, GetEntityName dm tag # l)))"

text \<open>
  \<^verbatim>\<open>get_model_info\<close> (lines 149-244) from the point where \<^verbatim>\<open>cls.is_available()\<close>
  has returned: the first argument is the value it returned. Every exit returns the
  dictionary \<^verbatim>\<open>info\<close> as mutated so far; the outer handler calls \<^verbatim>\<open>finalize\<close> once
  more and swallows its failure. The probe itself, which can raise, and the method as it
  is called are \<open>is_available\<close> and \<open>get_model_info_classmethod\<close> further down.
\<close>

definition get_model_info :: "bool \<Rightarrow> gmsh \<Rightarrow> path \<Rightarrow> model_info \<times> gmsh_call list" where
  "get_model_info is_available g input_path =
     (let info = initial_info in
      if \<not> is_available then (info, [])
      else
        case run_calls g [Initialize, SetNumber ''General.Terminal'' 0, ModelAdd ''info''] of
          (Some e, l1) \<Rightarrow> (info, l1 @ [Finalize])
        | (None, l1) \<Rightarrow>
            (case run_calls g (info_load_calls input_path) of
               (Some e, l2) \<Rightarrow>
                 (case raises g Finalize of
                    None \<Rightarrow> (info, l1 @ l2 @ [Finalize])
                  | Some e1 \<Rightarrow> (info, l1 @ l2 @ [Finalize, Finalize]))
             | (None, l2) \<Rightarrow>
                 (let info1 = info\<lparr>valid := True\<rparr> in
                  case raises g GetEntities of
                    Some e \<Rightarrow> (info1, l1 @ l2 @ [GetEntities, Finalize])
                  | None \<Rightarrow>
                      (let es = getEntities g;
                           info2 = count_entities es (info1\<lparr>entities := int (length es)\<rparr>)
                       in case bounding_box_block g es info2 of
                            (info3, l3) \<Rightarrow>
                              (case info_names_loop g es (part_names info3) of
                                 (names, l4) \<Rightarrow>
                                   (let info4 = info3\<lparr>part_names := names\<rparr>;
                                        l = l1 @ l2 @ [GetEntities] @ l3 @ l4 @ [Finalize]
                                    in case raises g Finalize of
                                         None \<Rightarrow> (info4, l)
                                       | Some e \<Rightarrow> (info4, l @ [Finalize])))))))"

subsection \<open>\<^verbatim>\<open>GmshManager.convert_to_stl\<close>\<close>

text \<open>The loading block of \<^verbatim>\<open>convert_to_stl\<close> with the healing options (lines 275-287).\<close>

definition convert_load_calls :: "path \<Rightarrow> bool \<Rightarrow> gmsh_call list" where
  "convert_load_calls input_path healing =
     (let file_ext = lower (path_suffix input_path) in
      if file_ext \<in> set brep_extensions
      then (if healing
            then [SetNumber ''Geometry.OCCFixDegenerated'' 1,
                  SetNumber ''Geometry.OCCFixSmallEdges'' 1,
                  SetNumber ''Geometry.OCCFixSmallFaces'' 1,
                  SetNumber ''Geometry.OCCSewFaces'' 1]
            else [])
           @ [ImportShapes (path_str input_path), Synchronize]
      else [Merge (path_str input_path)])"

text \<open>
  The part-name loop of \<^verbatim>\<open>convert_to_stl\<close> (lines 293-299): every non-empty name is
  appended.
\<close>

fun convert_names_loop ::
  "gmsh \<Rightarrow> (int \<times> int) list \<Rightarrow> string list \<Rightarrow> string list \<times> gmsh_call list" where
  "convert_names_loop g [] names = (names, [])"
| "convert_names_loop g ((dm, tag) # es) names =
     (case raises g (GetEntityName dm tag) of
        Some e \<Rightarrow> (names, [GetEntityName dm tag])
      | None \<Rightarrow>
          (let name = getEntityName g dm tag;
               names1 = (if name \<noteq> [] then names @ [name] else names)
           in case convert_names_loop g es names1 of
                (r, l) \<Rightarrow> (r, GetEntityName dm tag # l)))"

definition extract_part_names :: "gmsh \<Rightarrow> string list \<times> gmsh_call list" where
  "extract_part_names g =
     (case raises g GetEntities of
        Some e \<Rightarrow> ([], [GetEntities])
      | None \<Rightarrow>
          (case convert_names_loop g (getEntities g) [] of
             (names, l) \<Rightarrow> (names, GetEntities # l)))"

text \<open>The mesh settings (lines 302-308).\<close>

definition mesh_option_calls :: "real \<Rightarrow> real \<Rightarrow> int \<Rightarrow> bool \<Rightarrow> gmsh_call list" where
  "mesh_option_calls mesh_size_min mesh_size_max mesh_algorithm optimize_mesh =
     [SetNumber ''Mesh.CharacteristicLengthMin'' mesh_size_min,
      SetNumber ''Mesh.CharacteristicLengthMax'' mesh_size_max,
      SetNumber ''Mesh.Algorithm'' (real_of_int mesh_algorithm)]
     @ (if optimize_mesh
        then [SetNumber ''Mesh.Optimize'' 1, SetNumber ''Mesh.OptimizeNetgen'' 1]
        else [])"

text \<open>The outer handler of \<^verbatim>\<open>convert_to_stl\<close> (lines 327-333).\<close>

definition conversion_error ::
  "string \<Rightarrow> gmsh_call list \<Rightarrow> (bool \<times> string \<times> string list) \<times> gmsh_call list" where
  "conversion_error e l = ((False, ''Conversion error: '' @ e, []), l @ [Finalize])"

text \<open>
  An inner handler of the form \<^verbatim>\<open>gmsh.finalize(); return False, msg, []\<close>: when the
  \<^verbatim>\<open>finalize\<close> itself raises, the outer handler takes over.
\<close>

definition finalize_and_fail ::
  "gmsh \<Rightarrow> string \<Rightarrow> gmsh_call list \<Rightarrow> (bool \<times> string \<times> string list) \<times> gmsh_call list" where
  "finalize_and_fail g msg l =
     (case raises g Finalize of
        None \<Rightarrow> ((False, msg, []), l @ [Finalize])
      | Some e \<Rightarrow> conversion_error e (l @ [Finalize]))"

text \<open>
  \<^verbatim>\<open>convert_to_stl\<close> (lines 246-333): the result triple
  \<^verbatim>\<open>(success, message, part_names)\<close> and the call log.
\<close>

definition convert_to_stl ::
  "bool \<Rightarrow> gmsh \<Rightarrow> path \<Rightarrow> string \<Rightarrow> real \<Rightarrow> real \<Rightarrow> int \<Rightarrow> bool \<Rightarrow> bool
     \<Rightarrow> (bool \<times> string \<times> string list) \<times> gmsh_call list" where
  "convert_to_stl is_available g input_path output_path mesh_size_min mesh_size_max
       mesh_algorithm optimize_mesh healing =
     (if \<not> is_available then ((False, ''gmsh is not installed'', []), [])
      else
        case run_calls g
               [Initialize, SetNumber ''General.Terminal'' 0, ModelAdd ''cad_import''] of
          (Some e, l1) \<Rightarrow> conversion_error e l1
        | (None, l1) \<Rightarrow>
            (case run_calls g (convert_load_calls input_path healing) of
               (Some e, l2) \<Rightarrow>
                 finalize_and_fail g (''Failed to import CAD file: '' @ e) (l1 @ l2)
             | (None, l2) \<Rightarrow>
                 (case extract_part_names g of
                    (names, l3) \<Rightarrow>
                      (case run_calls g
                              (mesh_option_calls mesh_size_min mesh_size_max
                                 mesh_algorithm optimize_mesh) of
                         (Some e, l4) \<Rightarrow> conversion_error e (l1 @ l2 @ l3 @ l4)
                       | (None, l4) \<Rightarrow>
                           (case raises g (Generate 2) of
                              Some e \<Rightarrow>
                                finalize_and_fail g (''Failed to generate mesh: '' @ e)
                                  (l1 @ l2 @ l3 @ l4 @ [Generate 2])
                            | None \<Rightarrow>
                                (case raises g (Write output_path) of
                                   Some e \<Rightarrow>
                                     finalize_and_fail g (''Failed to write STL: '' @ e)
                                       (l1 @ l2 @ l3 @ l4 @ [Generate 2, Write output_path])
                                 | None \<Rightarrow>
                                     (case raises g Finalize of
                                        Some e \<Rightarrow>
                                          conversion_error e
                                            (l1 @ l2 @ l3 @ l4
                                               @ [Generate 2, Write output_path, Finalize])
                                      | None \<Rightarrow>
                                          ((True, ''Conversion successful'', names),
                                           l1 @ l2 @ l3 @ l4
                                             @ [Generate 2, Write output_path, Finalize]))))))))"

subsection \<open>The batch driver (\<^verbatim>\<open>LADDER_OT_import_cad\<close>)\<close>

datatype 'a outcome = Returns 'a | Raises string

datatype py_error = IndexError

datatype event = ESC | TIMER | OTHER

datatype modal_result = RUNNING_MODAL | FINISHED | CANCELLED

text \<open>
  What the surroundings do while the file at one index is processed: the temporary file
  that \<^verbatim>\<open>tempfile.mkstemp\<close> hands out and whether \<^verbatim>\<open>os.close\<close> raises, the engine
  during introspection and during conversion, what \<^verbatim>\<open>output_path.exists()\<close> answers
  after the conversion, and what \<^verbatim>\<open>bpy.ops.wm.stl_import\<close> does for a given file and
  scale: the objects it adds to \<^verbatim>\<open>bpy.data.objects\<close> and the exception it raises, if any.
\<close>

record file_world =
  mkstemp :: "string outcome"
  os_close :: "string option"
  info_gmsh :: gmsh
  conv_gmsh :: gmsh
  output_exists :: bool
  stl_import :: "string \<Rightarrow> real \<Rightarrow> nat list \<times> string option"

record world =
  gmsh_available :: bool
  file_worlds :: "nat \<Rightarrow> file_world"
  unlink_fails :: "string \<Rightarrow> bool"
  elapsed :: string

text \<open>
  The operator's properties and internal state, the module-level \<^verbatim>\<open>import_progress\<close>,
  and the parts of the host the driver reads or changes: the files on disk, Blender's
  objects (by identifier), the live collections with the objects linked to each, the
  operator reports, the log, the status bar text and the progress bar value. The
  numeric value of the \<^verbatim>\<open>global_scale\<close> and \<^verbatim>\<open>mesh_algorithm\<close> enum strings is
  stored directly.
\<close>

record import_state =
  source_unit :: string
  global_scale :: real
  mesh_algorithm :: int
  optimize_mesh :: bool
  healing :: bool
  timer :: bool
  files_to_process :: "path list"
  current_index :: nat
  temp_files :: "string list"
  all_imported_objects :: "nat list"
  mesh_min :: real
  mesh_max :: real
  target_collection :: "nat option"
  progress :: import_progress
  fs :: "string set"
  data_objects :: "nat list"
  data_collections :: "nat list"
  collection_objects :: "nat \<Rightarrow> nat list"
  reports :: "(string \<times> string) list"
  logged :: "(string \<times> string) list"
  workspace_status :: "string option"
  wm_progress :: real

text \<open>
  The unit scale of one file (lines 1038-1046). The dictionary returned by
  \<^verbatim>\<open>get_model_info\<close> always has the key \<^verbatim>\<open>'estimated_unit'\<close>, so
  \<^verbatim>\<open>info.get('estimated_unit', 'MILLIMETERS')\<close> is that entry.
\<close>

definition resolve_unit_scale :: "bool \<Rightarrow> gmsh \<Rightarrow> path \<Rightarrow> string \<Rightarrow> real" where
  "resolve_unit_scale is_available g input_path src_unit =
     (let unit_scale = 1.0 in
      if src_unit = ''AUTO'' then
        (let info = fst (get_model_info is_available g input_path);
             detected_unit = estimated_unit info
         in case UNIT_SCALES detected_unit of
              Some sc \<Rightarrow> sc
            | None \<Rightarrow> unit_scale)
      else
        (case UNIT_SCALES src_unit of
           Some sc \<Rightarrow> sc
         | None \<Rightarrow> unit_scale))"

text \<open>
  Moving the new objects into the target collection (lines 1116-1120): each object is
  unlinked from every collection and linked to the target.
\<close>

fun move_to_collection :: "nat list \<Rightarrow> nat \<Rightarrow> (nat \<Rightarrow> nat list) \<Rightarrow> (nat \<Rightarrow> nat list)" where
  "move_to_collection [] c objs_of = objs_of"
| "move_to_collection (obj # objs) c objs_of =
     move_to_collection objs c
       ((\<lambda>k. removeAll obj (objs_of k))(c := removeAll obj (objs_of c) @ [obj]))"

text \<open>
  \<^verbatim>\<open>_process_current_file\<close> (lines 1021-1168), in three parts. Renaming the new
  objects and the per-object post-processing (lines 1091-1113 and 1122-1165) change
  attributes of the objects only and are left out; the collections the importer itself
  links an object to are not tracked.
\<close>

text \<open>The import phase (lines 1068-1168).\<close>

definition import_phase ::
  "file_world \<Rightarrow> path \<Rightarrow> string \<Rightarrow> real \<Rightarrow> import_state \<Rightarrow> string \<times> import_state" where
  "import_phase fw input_path output_path unit_scale s =
     (let s1 = s\<lparr>progress :=
                  update (int (current_index s)) (path_name input_path) ''importing''
                    (progress s)\<rparr>;
          s2 = s1\<lparr>workspace_status := Some (status_text (progress s1))\<rparr>;
          before_objects = set (data_objects s2);
          final_scale = global_scale s2 * unit_scale
      in
        case stl_import fw output_path final_scale of
          (created, exc) \<Rightarrow>
            (let s3 = s2\<lparr>data_objects := data_objects s2 @ created\<rparr>
             in
               case exc of
                 Some e \<Rightarrow>
                   (''ERROR'',
                    s3\<lparr>logged := logged s3
                         @ [(''ERROR'', ''Import failed for '' @ path_str input_path
                               @ '': '' @ e)]\<rparr>)
               | None \<Rightarrow>
                   (let new_objects =
                          filter (\<lambda>obj. obj \<notin> before_objects) (data_objects s3)
                    in
                      if new_objects = [] then (''ERROR'', s3)
                      else
                        (let s4 =
                           (case target_collection s3 of
                              None \<Rightarrow> s3
                            | Some c \<Rightarrow>
                                s3\<lparr>collection_objects :=
                                     move_to_collection new_objects c (collection_objects s3)\<rparr>)
                         in
                           (''OK'',
                            s4\<lparr>all_imported_objects :=
                                 all_imported_objects s4 @ new_objects\<rparr>)))))"

text \<open>
  Unit scale, conversion and the check of the output file (lines 1038-1066), followed by
  the import phase.
\<close>

definition convert_phase ::
  "world \<Rightarrow> file_world \<Rightarrow> path \<Rightarrow> string \<Rightarrow> import_state \<Rightarrow> string \<times> import_state" where
  "convert_phase w fw input_path output_path s =
     (let unit_scale =
            resolve_unit_scale (gmsh_available w) (info_gmsh fw) input_path (source_unit s)
      in
        case fst (convert_to_stl (gmsh_available w) (conv_gmsh fw) input_path output_path
                    (mesh_min s) (mesh_max s) (mesh_algorithm s) (optimize_mesh s) (healing s)) of
          (success, message, names) \<Rightarrow>
            if \<not> success then
              (''ERROR'',
               s\<lparr>logged := logged s
                    @ [(''ERROR'', ''Conversion failed for '' @ path_str input_path
                          @ '': '' @ message)],
                 reports := reports s
                    @ [(''WARNING'', ''Failed to convert '' @ path_name input_path
                          @ '': '' @ message)]\<rparr>)
            else
              (let s1 = s\<lparr>fs := (if output_exists fw then fs s else fs s - {output_path})\<rparr>
               in
                 if output_path \<notin> fs s1 then
                   (''ERROR'',
                    s1\<lparr>logged := logged s1
                         @ [(''ERROR'', ''No output produced for '' @ path_str input_path)]\<rparr>)
                 else import_phase fw input_path output_path unit_scale s1))"

text \<open>
  The head of \<^verbatim>\<open>_process_current_file\<close> (lines 1023-1036): the current file, the
  progress update and the temporary file, which is registered before anything else is
  done with it.
\<close>

definition process_current_file :: "world \<Rightarrow> import_state \<Rightarrow> py_error + (string \<times> import_state)" where
  "process_current_file w s =
     (if \<not> current_index s < length (files_to_process s) then Inl IndexError
      else
        let input_path = files_to_process s ! current_index s;
            fw = file_worlds w (current_index s);
            s1 = s\<lparr>progress :=
                   update (int (current_index s)) (path_name input_path) ''converting''
                     (progress s)\<rparr>;
            s2 = s1\<lparr>workspace_status := Some (status_text (progress s1))\<rparr>
        in
          case mkstemp fw of
            Raises e \<Rightarrow>
              Inr (''ERROR'',
                   s2\<lparr>logged := logged s2 @ [(''ERROR'', ''Failed to create temp file: '' @ e)]\<rparr>)
          | Returns output_path \<Rightarrow>
              (case os_close fw of
                 Some e \<Rightarrow>
                   Inr (''ERROR'',
                        s2\<lparr>fs := insert output_path (fs s2),
                           logged := logged s2
                             @ [(''ERROR'', ''Failed to create temp file: '' @ e)]\<rparr>)
               | None \<Rightarrow>
                   Inr (convert_phase w fw input_path output_path
                          (s2\<lparr>fs := insert output_path (fs s2),
                              temp_files := temp_files s2 @ [output_path]\<rparr>))))"

text \<open>
  The clean-up loop of \<^verbatim>\<open>_finish\<close> (lines 1181-1186): a path that exists is unlinked;
  an \<^verbatim>\<open>unlink\<close> that raises leaves the file and the loop goes on.
\<close>

fun cleanup_temp_files :: "(string \<Rightarrow> bool) \<Rightarrow> string list \<Rightarrow> string set \<Rightarrow> string set" where
  "cleanup_temp_files fails [] files = files"
| "cleanup_temp_files fails (temp_path # ps) files =
     cleanup_temp_files fails ps
       (if temp_path \<in> files
        then (if fails temp_path then files else files - {temp_path})
        else files)"

text \<open>
  \<^verbatim>\<open>_finish\<close> (lines 1170-1222). Selecting the imported objects and framing the view
  (lines 1197-1211) change the selection and the viewport only and are left out.
\<close>

definition finish :: "world \<Rightarrow> import_state \<Rightarrow> bool \<Rightarrow> import_state \<times> modal_result" where
  "finish w s cancelled =
     (let s1 = s\<lparr>timer := False, workspace_status := None, progress := stop (progress s)\<rparr>;
          s2 = s1\<lparr>fs := cleanup_temp_files (unlink_fails w) (temp_files s1) (fs s1),
                  temp_files := []\<rparr>
      in
        if cancelled then
          (let s3 = s2\<lparr>progress := cancel (progress s2)\<rparr>;
               s4 = (case target_collection s3 of
                       None \<Rightarrow> s3
                     | Some c \<Rightarrow>
                         if length (collection_objects s3 c) = 0
                         then s3\<lparr>data_collections := removeAll c (data_collections s3)\<rparr>
                         else s3)
           in (s4\<lparr>reports := reports s4 @ [(''INFO'', ''Import cancelled'')]\<rparr>, CANCELLED))
        else
          (let obj_count = length (all_imported_objects s2);
               file_count = length (files_to_process s2);
               msg = (if file_count = 1
                      then ''Imported '' @ str_int (int obj_count) @ '' object(s) in ''
                             @ elapsed w @ ''s''
                      else ''Imported '' @ str_int (int obj_count) @ '' object(s) from ''
                             @ str_int (int file_count) @ '' files in '' @ elapsed w @ ''s'')
           in (s2\<lparr>reports := reports s2 @ [(''INFO'', msg)]\<rparr>, FINISHED)))"

text \<open>\<^verbatim>\<open>modal\<close> (lines 1001-1019): one event of the host.\<close>

definition modal :: "world \<Rightarrow> import_state \<Rightarrow> event \<Rightarrow> py_error + (import_state \<times> modal_result)" where
  "modal w s ev =
     (if ev = ESC then Inr (finish w s True)
      else if ev = TIMER then
        (if current_index s \<ge> length (files_to_process s) then Inr (finish w s False)
         else
           case process_current_file w s of
             Inl err \<Rightarrow> Inl err
           | Inr (result, s1) \<Rightarrow>
               (let s2 = s1\<lparr>current_index := current_index s1 + 1\<rparr>;
                    s3 = s2\<lparr>wm_progress :=
                            (real (current_index s2) / real (length (files_to_process s2))) * 100\<rparr>
                in Inr (s3\<lparr>workspace_status := Some (status_text (progress s3))\<rparr>,
                        RUNNING_MODAL)))
      else Inr (s, RUNNING_MODAL))"

text \<open>
  The host calls \<^verbatim>\<open>modal\<close> for each event as long as the operator answers
  \<^verbatim>\<open>RUNNING_MODAL\<close>; any other answer ends the operator.
\<close>

fun run :: "world \<Rightarrow> import_state \<Rightarrow> event list \<Rightarrow> py_error + (import_state \<times> modal_result)" where
  "run w s [] = Inr (s, RUNNING_MODAL)"
| "run w s (ev # evs) =
     (case modal w s ev of
        Inl err \<Rightarrow> Inl err
      | Inr (s1, r) \<Rightarrow> if r = RUNNING_MODAL then run w s1 evs else Inr (s1, r))"

subsection \<open>The availability probe and \<^verbatim>\<open>get_model_info\<close> as it is called\<close>

text \<open>
  What \<^verbatim>\<open>import gmsh\<close> does in the running interpreter: it succeeds, raises
  \<^verbatim>\<open>ImportError\<close>, or raises another exception (for instance an \<^verbatim>\<open>OSError\<close> when the
  shared library cannot be loaded).
\<close>

datatype gmsh_import = ImportSucceeds | ImportError | OtherException string

text \<open>
  \<^verbatim>\<open>GmshManager.is_available\<close> (lines 89-103), with the class attribute
  \<^verbatim>\<open>_gmsh_available\<close> passed in and returned. A cached value is returned as it is.
  Otherwise the import is tried; the handler names \<^verbatim>\<open>ImportError\<close> only, so any other
  exception leaves the method and the cache stays empty.
\<close>

definition is_available :: "bool option \<Rightarrow> gmsh_import \<Rightarrow> bool outcome \<times> bool option" where
  "is_available cached imp =
     (case cached of
        Some b \<Rightarrow> (Returns b, Some b)
      | None \<Rightarrow>
          (case imp of
             ImportSucceeds \<Rightarrow> (Returns True, Some True)
           | ImportError \<Rightarrow> (Returns False, Some False)
           | OtherException e \<Rightarrow> (Raises e, None)))"

text \<open>
  The classmethod \<^verbatim>\<open>get_model_info\<close> as a caller sees it (lines 149-244). The probe of
  line 164 runs before the \<^verbatim>\<open>try\<close> of line 167, so an exception of the probe leaves the
  method. The \<^verbatim>\<open>import gmsh\<close> of line 168 is inside the \<^verbatim>\<open>try\<close>: when it raises, the
  outer handler's own import raises too and is swallowed, and the untouched dictionary is
  returned without any engine call. In every other case the result is that of
  \<open>get_model_info\<close> above for the value the probe returned.
\<close>

definition get_model_info_classmethod ::
  "bool option \<Rightarrow> gmsh_import \<Rightarrow> gmsh \<Rightarrow> path
     \<Rightarrow> (model_info \<times> gmsh_call list) outcome \<times> bool option" where
  "get_model_info_classmethod cached imp g input_path =
     (case is_available cached imp of
        (Raises e, cached1) \<Rightarrow> (Raises e, cached1)
      | (Returns available, cached1) \<Rightarrow>
          if available \<and> imp \<noteq> ImportSucceeds
          then (Returns (initial_info, []), cached1)
          else (Returns (get_model_info available g input_path), cached1))"

subsection \<open>Example engines and files\<close>

text \<open>
  An engine on which no call raises and whose model is empty, and variations of it: a
  model with one volume and a bounding box of a given length, an engine that cannot open
  the file, one whose entity enumeration raises, and a model in which two volumes carry
  the same name.
\<close>

definition quiet_gmsh :: gmsh where
  "quiet_gmsh =
     \<lparr>raises = (\<lambda>c. None), getEntities = [], getBoundingBox = (0, 0, 0, 0, 0, 0),
      getEntityName = (\<lambda>dm tag. [])\<rparr>"

definition box_gmsh :: "real \<Rightarrow> gmsh" where
  "box_gmsh d = quiet_gmsh\<lparr>getEntities := [(3, 1)], getBoundingBox := (0, 0, 0, d, 0, 0)\<rparr>"

definition missing_file_gmsh :: gmsh where
  "missing_file_gmsh =
     quiet_gmsh\<lparr>raises := (\<lambda>c. case c of ImportShapes f \<Rightarrow> Some ''Could not open file'' | _ \<Rightarrow> None)\<rparr>"


definition twin_gmsh :: gmsh where
  "twin_gmsh =
     quiet_gmsh\<lparr>getEntities := [(3, 1), (3, 2), (2, 1)],
                getBoundingBox := (0, 0, 0, 40, 20, 10),
                getEntityName := (\<lambda>dm tag. if dm = 3 then ''Bracket'' else [])\<rparr>"

text \<open>A model with one volume whose bounding box the engine does not return.\<close>

definition no_bbox_gmsh :: gmsh where
  "no_bbox_gmsh =
     (box_gmsh 120)\<lparr>raises := (\<lambda>c. if c = GetBoundingBox then Some ''no bounding box'' else None)\<rparr>"

text \<open>A STEP file with an upper-case extension, and a file of another format.\<close>

definition step_file :: path where
  "step_file = \<lparr>path_str = ''/cad/model.STEP'', path_name = ''model.STEP'', path_suffix = ''.STEP''\<rparr>"

definition mesh_file :: path where
  "mesh_file = \<lparr>path_str = ''/cad/part.msh'', path_name = ''part.msh'', path_suffix = ''.msh''\<rparr>"

text \<open>The four geometry-healing options (lines 279-282).\<close>

definition healing_keys :: "string set" where
  "healing_keys = {''Geometry.OCCFixDegenerated'', ''Geometry.OCCFixSmallEdges'',
                   ''Geometry.OCCFixSmallFaces'', ''Geometry.OCCSewFaces''}"

subsection \<open>Example batches\<close>

text \<open>
  A batch of three files after \<^verbatim>\<open>execute\<close> has set it up (index 0, no temporary files,
  no imported objects, progress started with 3). For every file the conversion succeeds;
  the importer creates object 1 for the first file, nothing for the second, and object 3
  for the third.
\<close>

definition example_file :: "string \<Rightarrow> nat list \<Rightarrow> file_world" where
  "example_file tmp objs =
     \<lparr>mkstemp = Returns tmp, os_close = None, info_gmsh = box_gmsh 120, conv_gmsh = box_gmsh 120,
      output_exists = True, stl_import = (\<lambda>f scale. (objs, None))\<rparr>"

definition example_world :: world where
  "example_world =
     \<lparr>gmsh_available = True,
      file_worlds = (\<lambda>i. if i = 0 then example_file ''/tmp/a.stl'' [1]
                         else if i = 1 then example_file ''/tmp/b.stl'' []
                         else example_file ''/tmp/c.stl'' [3]),
      unlink_fails = (\<lambda>p. False),
      elapsed = ''0.42''\<rparr>"

definition example_files :: "path list" where
  "example_files =
     [\<lparr>path_str = ''/cad/a.step'', path_name = ''a.step'', path_suffix = ''.step''\<rparr>,
      \<lparr>path_str = ''/cad/b.stp'', path_name = ''b.stp'', path_suffix = ''.stp''\<rparr>,
      \<lparr>path_str = ''/cad/c.igs'', path_name = ''c.igs'', path_suffix = ''.igs''\<rparr>]"

definition example_state :: import_state where
  "example_state =
     \<lparr>source_unit = ''AUTO'', global_scale = 1, mesh_algorithm = 2, optimize_mesh = False,
      healing = False, timer = True, files_to_process = example_files, current_index = 0,
      temp_files = [], all_imported_objects = [], mesh_min = 0.1, mesh_max = 10,
      target_collection = None, progress = start 3 init_progress, fs = {}, data_objects = [],
      data_collections = [], collection_objects = (\<lambda>c. []), reports = [], logged = [],
      workspace_status = None, wm_progress = 0\<rparr>"

text \<open>The same batch when the engine cannot open the second file during conversion.\<close>

definition conversion_failure_world :: world where
  "conversion_failure_world =
     example_world\<lparr>file_worlds :=
       (\<lambda>i. if i = 1
            then (example_file ''/tmp/b.stl'' [2])\<lparr>conv_gmsh := missing_file_gmsh\<rparr>
            else file_worlds example_world i)\<rparr>"

text \<open>
  A batch that is cancelled after two files: two temporary files are registered, one of
  which cannot be deleted, and the target collection 7 has received no object.
\<close>

definition cancel_world :: world where
  "cancel_world = example_world\<lparr>unlink_fails := (\<lambda>p. p = ''/tmp/b.stl'')\<rparr>"

definition cancel_state :: import_state where
  "cancel_state =
     example_state\<lparr>current_index := 2,
                    temp_files := [''/tmp/a.stl'', ''/tmp/b.stl''],
                    fs := {''/tmp/a.stl'', ''/tmp/b.stl'', ''/cad/a.step''},
                    target_collection := Some 7,
                    data_collections := [7, 8]\<rparr>"

subsection \<open>Order of first appearance\<close>

text \<open>
  Follows the spec's words, not the code: a list "in order of first appearance with
  duplicates removed" keeps the first occurrence of every element.
\<close>

definition first_occurrences :: "'a list \<Rightarrow> 'a list" where
  "first_occurrences xs = rev (remdups (rev xs))"

section \<open>Properties\<close>

subsection \<open>Progress percentage\<close>

lemma progress_percent_formula:
  "total_files p \<noteq> 0 \<Longrightarrow>
   progress_percent p =
     min ((real_of_int (current_file p) / real_of_int (total_files p)) * 100
            + (if phase p = ''converting'' then (0.5 / real_of_int (total_files p)) * 100 else 0))
         100"
  by (simp add: progress_percent_def Let_def)

lemma progress_percent_mono:
  assumes "0 \<le> total_files p" and "i \<le> j"
  shows "progress_percent (p\<lparr>current_file := i\<rparr>) \<le> progress_percent (p\<lparr>current_file := j\<rparr>)"
proof (cases "total_files p = 0")
  case True
  then show ?thesis by (simp add: progress_percent_def)
next
  case False
  with assms have pos: "0 < real_of_int (total_files p)" by simp
  define bonus where
    "bonus = (if phase p = ''converting'' then (0.5 / real_of_int (total_files p)) * 100 else 0)"
  have "(real_of_int i / real_of_int (total_files p)) * 100 + bonus
      \<le> (real_of_int j / real_of_int (total_files p)) * 100 + bonus"
    by (intro add_right_mono mult_right_mono divide_right_mono) (use assms(2) pos in simp_all)
  then have "min ((real_of_int i / real_of_int (total_files p)) * 100 + bonus) 100
      \<le> min ((real_of_int j / real_of_int (total_files p)) * 100 + bonus) 100"
    by (rule min.mono) simp
  moreover have "progress_percent (p\<lparr>current_file := i\<rparr>)
      = min ((real_of_int i / real_of_int (total_files p)) * 100 + bonus) 100"
    using False progress_percent_formula [of "p\<lparr>current_file := i\<rparr>"] by (simp add: bonus_def)
  moreover have "progress_percent (p\<lparr>current_file := j\<rparr>)
      = min ((real_of_int j / real_of_int (total_files p)) * 100 + bonus) 100"
    using False progress_percent_formula [of "p\<lparr>current_file := j\<rparr>"] by (simp add: bonus_def)
  ultimately show ?thesis by simp
qed

text \<open>
  Claim C5. \<^verbatim>\<open>progress_percent\<close> is 0 when the total is 0; otherwise it is
  \<open>(current_file / total_files) * 100\<close>, plus \<open>(0.5 / total_files) * 100\<close> exactly when
  the phase is \<^verbatim>\<open>"converting"\<close>, capped at 100. For a fixed total (a file count, so not
  negative) it is monotonically non-decreasing in the current index, and with total 2,
  index 0 and phase \<^verbatim>\<open>"converting"\<close> it lies strictly between 0 and 50.
\<close>

theorem progress_percent_spec:
  "(total_files p = 0 \<longrightarrow> progress_percent p = 0) \<and>
   (total_files p \<noteq> 0 \<longrightarrow>
      progress_percent p =
        min ((real_of_int (current_file p) / real_of_int (total_files p)) * 100
               + (if phase p = ''converting'' then (0.5 / real_of_int (total_files p)) * 100 else 0))
            100) \<and>
   progress_percent p \<le> 100 \<and>
   (0 \<le> total_files p \<and> i \<le> j \<longrightarrow>
      progress_percent (p\<lparr>current_file := i\<rparr>) \<le> progress_percent (p\<lparr>current_file := j\<rparr>)) \<and>
   (total_files p = 2 \<and> current_file p = 0 \<and> phase p = ''converting'' \<longrightarrow>
      0 < progress_percent p \<and> progress_percent p < 50)"
proof (intro conjI impI)
  assume "total_files p = 0"
  then show "progress_percent p = 0" by (simp add: progress_percent_def)
next
  assume "total_files p \<noteq> 0"
  then show "progress_percent p =
        min ((real_of_int (current_file p) / real_of_int (total_files p)) * 100
               + (if phase p = ''converting'' then (0.5 / real_of_int (total_files p)) * 100 else 0))
            100"
    by (rule progress_percent_formula)
next
  show "progress_percent p \<le> 100" by (simp add: progress_percent_def Let_def)
next
  assume "0 \<le> total_files p \<and> i \<le> j"
  then show "progress_percent (p\<lparr>current_file := i\<rparr>) \<le> progress_percent (p\<lparr>current_file := j\<rparr>)"
    using progress_percent_mono by blast
next
  assume a: "total_files p = 2 \<and> current_file p = 0 \<and> phase p = ''converting''"
  then show "0 < progress_percent p" by (simp add: progress_percent_def)
  from a show "progress_percent p < 50" by (simp add: progress_percent_def)
qed

theorem progress_percent_spec_witness:
  "progress_percent (start 0 init_progress) = 0 \<and>
   progress_percent (update 1 ''a.step'' ''importing'' (start 4 init_progress)) = 25 \<and>
   progress_percent (update 3 ''a.step'' ''converting'' (start 4 init_progress)) = 87.5 \<and>
   progress_percent (update 4 ''a.step'' ''converting'' (start 4 init_progress)) = 100 \<and>
   progress_percent ((start 4 init_progress)\<lparr>current_file := 1\<rparr>)
     \<le> progress_percent ((start 4 init_progress)\<lparr>current_file := 2\<rparr>) \<and>
   0 < progress_percent (update 0 ''test.step'' ''converting'' (start 2 init_progress)) \<and>
   progress_percent (update 0 ''test.step'' ''converting'' (start 2 init_progress)) < 50"
  using progress_percent_spec [of "start 0 init_progress" 0 0]
    progress_percent_spec [of "update 1 ''a.step'' ''importing'' (start 4 init_progress)" 0 0]
    progress_percent_spec [of "update 3 ''a.step'' ''converting'' (start 4 init_progress)" 0 0]
    progress_percent_spec [of "update 4 ''a.step'' ''converting'' (start 4 init_progress)" 0 0]
    progress_percent_spec [of "start 4 init_progress" 1 2]
    progress_percent_spec [of "update 0 ''test.step'' ''converting'' (start 2 init_progress)" 0 0]
  by (simp add: start_def update_def init_progress_def)

subsection \<open>Status text\<close>

text \<open>
  The text of a running import starts with \<^verbatim>\<open>"Ladder: "\<close>, so it is not the bare
  \<^verbatim>\<open>"{phase label} {name} ({index+1}/{total})"\<close>.
\<close>

theorem status_text_counterexample:
  "is_running (update 1 ''model.step'' ''converting'' (start 3 init_progress)) \<and>
   status_text (update 1 ''model.step'' ''converting'' (start 3 init_progress))
     \<noteq> ''Converting model.step (2/3)''"
  by (simp add: status_text_def update_def start_def init_progress_def)

text \<open>
  Claim C7, amended. \<^verbatim>\<open>status_text\<close> is the empty string when the progress object is
  not running; when running it is
  \<^verbatim>\<open>"Ladder: {phase label} {current name} ({current_file+1}/{total_files})"\<close> with the
  label \<^verbatim>\<open>"Converting"\<close> when the phase is \<^verbatim>\<open>"converting"\<close> and \<^verbatim>\<open>"Importing"\<close>
  otherwise. After \<^verbatim>\<open>start(3)\<close> and \<^verbatim>\<open>update(1, "model.step", "converting")\<close> it is
  \<^verbatim>\<open>"Ladder: Converting model.step (2/3)"\<close>, which contains \<^verbatim>\<open>"Converting"\<close>,
  \<^verbatim>\<open>"model.step"\<close> and \<^verbatim>\<open>"2/3"\<close>.
\<close>

theorem status_text_spec:
  "status_text p =
     (if is_running p
      then ''Ladder: '' @ (if phase p = ''converting'' then ''Converting'' else ''Importing'')
             @ '' '' @ current_filename p
             @ '' ('' @ str_int (current_file p + 1) @ ''/'' @ str_int (total_files p) @ '')''
      else [])
   \<and> status_text (update 1 ''model.step'' ''converting'' (start 3 p))
       = ''Ladder: Converting model.step (2/3)''
   \<and> str_contains (status_text (update 1 ''model.step'' ''converting'' (start 3 p))) ''Converting''
   \<and> str_contains (status_text (update 1 ''model.step'' ''converting'' (start 3 p))) ''model.step''
   \<and> str_contains (status_text (update 1 ''model.step'' ''converting'' (start 3 p))) ''2/3''"
proof -
  have ex: "status_text (update 1 ''model.step'' ''converting'' (start 3 p))
       = ''Ladder: Converting model.step (2/3)''"
    by (simp add: status_text_def update_def start_def str_int_def str_nat.simps digit_char_def)
  show ?thesis
    unfolding ex by (simp add: status_text_def Let_def)
qed

subsection \<open>Engine call sequences\<close>

lemma run_calls_None: "run_calls g cs = (None, l) \<Longrightarrow> l = cs"
  by (induction cs arbitrary: l) (auto split: option.splits prod.splits)

lemma run_calls_subset: "run_calls g cs = (r, l) \<Longrightarrow> set l \<subseteq> set cs"
  by (induction cs arbitrary: r l) (auto split: option.splits prod.splits)

lemma run_calls_quiet:
  "raises g = (\<lambda>c. None) \<Longrightarrow> run_calls g cs = (None, cs)"
  by (induction cs) auto

subsection \<open>Model introspection\<close>

lemma estimated_unit_count_entities [simp]:
  "estimated_unit (count_entities es info) = estimated_unit info"
  by (induction es info rule: count_entities.induct) auto

lemma valid_count_entities [simp]:
  "valid (count_entities es info) = valid info"
  by (induction es info rule: count_entities.induct) auto

lemma bounding_box_block_unit:
  "bounding_box_block g es info = (info1, l) \<Longrightarrow>
   estimated_unit info1 \<in> {estimated_unit info, ''MILLIMETERS'', ''CENTIMETERS'', ''METERS''}"
  unfolding bounding_box_block_def Let_def
  by (auto split: option.splits prod.splits if_splits simp: estimate_unit_def)


lemma bounding_box_block_estimate:
  assumes "es \<noteq> []" and "raises g GetBoundingBox = None"
    and "getBoundingBox g = (xmin, ymin, zmin, xmax, ymax, zmax)"
  shows "estimated_unit (fst (bounding_box_block g es info))
           = estimate_unit (max (xmax - xmin) (max (ymax - ymin) (zmax - zmin)))"
  using assms by (simp add: bounding_box_block_def Let_def)

lemma get_model_info_estimate:
  assumes "fst (run_calls g [Initialize, SetNumber ''General.Terminal'' 0, ModelAdd ''info'']) = None"
    and "fst (run_calls g (info_load_calls p)) = None"
    and "raises g GetEntities = None"
  shows "estimated_unit (fst (get_model_info True g p))
           = estimated_unit (fst (bounding_box_block g (getEntities g)
               (count_entities (getEntities g)
                  (initial_info\<lparr>valid := True, entities := int (length (getEntities g))\<rparr>))))"
  using assms unfolding get_model_info_def Let_def
  by (auto split: option.splits prod.splits)



text \<open>
  The probe and the classmethod: the method raises exactly when the probe does, which is
  when nothing is cached and the import raises something other than \<^verbatim>\<open>ImportError\<close>.
\<close>

lemma is_available_raises_iff:
  "fst (is_available cached imp) = Raises e \<longleftrightarrow> cached = None \<and> imp = OtherException e"
  by (auto simp: is_available_def split: option.splits gmsh_import.splits)

lemma get_model_info_classmethod_raises_iff:
  "fst (get_model_info_classmethod cached imp g p) = Raises e
     \<longleftrightarrow> fst (is_available cached imp) = Raises e"
  by (cases "is_available cached imp")
     (auto simp: get_model_info_classmethod_def split: outcome.splits)

lemma get_model_info_classmethod_available:
  assumes "fst (is_available cached imp) = Returns True" and "imp = ImportSucceeds"
  shows "fst (get_model_info_classmethod cached imp g p) = Returns (get_model_info True g p)"
  using assms
  by (cases "is_available cached imp") (simp add: get_model_info_classmethod_def)




text \<open>
  Claim C8. For a model with at least one entity whose bounding box the engine returns,
  the estimated unit follows from the largest bounding-box dimension \<open>d\<close>: millimeters if
  \<open>d > 1000\<close>, centimeters if \<open>10 < d \<le> 1000\<close>, meters if \<open>0.1 < d \<le> 10\<close>, and
  millimeters if \<open>d \<le> 0.1\<close>.
\<close>

theorem estimated_unit_thresholds:
  assumes "fst (run_calls g [Initialize, SetNumber ''General.Terminal'' 0, ModelAdd ''info'']) = None"
    and "fst (run_calls g (info_load_calls p)) = None"
    and "raises g GetEntities = None"
    and "getEntities g \<noteq> []"
    and "raises g GetBoundingBox = None"
    and "getBoundingBox g = (xmin, ymin, zmin, xmax, ymax, zmax)"
    and "d = max (xmax - xmin) (max (ymax - ymin) (zmax - zmin))"
  shows "(d > 1000 \<longrightarrow> estimated_unit (fst (get_model_info True g p)) = ''MILLIMETERS'') \<and>
         (10 < d \<and> d \<le> 1000 \<longrightarrow> estimated_unit (fst (get_model_info True g p)) = ''CENTIMETERS'') \<and>
         (0.1 < d \<and> d \<le> 10 \<longrightarrow> estimated_unit (fst (get_model_info True g p)) = ''METERS'') \<and>
         (d \<le> 0.1 \<longrightarrow> estimated_unit (fst (get_model_info True g p)) = ''MILLIMETERS'')"
proof -
  have "estimated_unit (fst (get_model_info True g p)) = estimate_unit d"
    using get_model_info_estimate [OF assms(1-3)]
      bounding_box_block_estimate [OF assms(4-6)] assms(7)
    by simp
  then show ?thesis by (simp add: estimate_unit_def)
qed

lemma box_gmsh_runs:
  "fst (run_calls (box_gmsh d) [Initialize, SetNumber ''General.Terminal'' 0, ModelAdd ''info'']) = None"
  "fst (run_calls (box_gmsh d) (info_load_calls step_file)) = None"
  "raises (box_gmsh d) GetEntities = None"
  "getEntities (box_gmsh d) \<noteq> []"
  "raises (box_gmsh d) GetBoundingBox = None"
  "getBoundingBox (box_gmsh d) = (0, 0, 0, d, 0, 0)"
  by (simp_all add: box_gmsh_def quiet_gmsh_def info_load_calls_def Let_def)

theorem estimated_unit_thresholds_witness:
  "estimated_unit (fst (get_model_info True (box_gmsh 2500) step_file)) = ''MILLIMETERS'' \<and>
   estimated_unit (fst (get_model_info True (box_gmsh 300) step_file)) = ''CENTIMETERS'' \<and>
   estimated_unit (fst (get_model_info True (box_gmsh 2) step_file)) = ''METERS'' \<and>
   estimated_unit (fst (get_model_info True (box_gmsh 0.05) step_file)) = ''MILLIMETERS''"
  using estimated_unit_thresholds [OF box_gmsh_runs, of 2500 2500]
    estimated_unit_thresholds [OF box_gmsh_runs, of 300 300]
    estimated_unit_thresholds [OF box_gmsh_runs, of 2 2]
    estimated_unit_thresholds [OF box_gmsh_runs, of "0.05" "0.05"]
  by simp

text \<open>
  Claim C9. The estimated unit produced by \<^verbatim>\<open>get_model_info\<close> is one of
  \<^verbatim>\<open>UNKNOWN\<close>, \<^verbatim>\<open>MILLIMETERS\<close>, \<^verbatim>\<open>CENTIMETERS\<close>, \<^verbatim>\<open>METERS\<close>, never
  \<^verbatim>\<open>MICROMETERS\<close>, \<^verbatim>\<open>INCHES\<close> or \<^verbatim>\<open>FEET\<close>; so the scale chosen under automatic
  detection is never the micrometer, inch or foot scale of the table. Each of the four
  labels occurs.
\<close>

lemma box_gmsh_estimate:
  "estimated_unit (fst (get_model_info True (box_gmsh d) step_file)) = estimate_unit (max d 0)"
  using get_model_info_estimate [OF box_gmsh_runs(1-3), of d]
    bounding_box_block_estimate [OF box_gmsh_runs(4-6), of d]
  by simp

theorem estimated_unit_range:
  "estimated_unit (fst (get_model_info a g p))
      \<in> {''UNKNOWN'', ''MILLIMETERS'', ''CENTIMETERS'', ''METERS''} \<and>
   estimated_unit (fst (get_model_info a g p)) \<notin> {''MICROMETERS'', ''INCHES'', ''FEET''} \<and>
   resolve_unit_scale a g p ''AUTO'' \<in> {1, 0.001, 0.01} \<and>
   resolve_unit_scale a g p ''AUTO'' \<notin> {0.000001, 0.0254, 0.3048} \<and>
   estimated_unit (fst (get_model_info False quiet_gmsh step_file)) = ''UNKNOWN'' \<and>
   estimated_unit (fst (get_model_info True (box_gmsh 2500) step_file)) = ''MILLIMETERS'' \<and>
   estimated_unit (fst (get_model_info True (box_gmsh 300) step_file)) = ''CENTIMETERS'' \<and>
   estimated_unit (fst (get_model_info True (box_gmsh 2) step_file)) = ''METERS''"
proof -
  have u: "estimated_unit (fst (get_model_info a g p))
      \<in> {''UNKNOWN'', ''MILLIMETERS'', ''CENTIMETERS'', ''METERS''}"
    unfolding get_model_info_def Let_def
    by (auto split: option.splits prod.splits simp: initial_info_def dest!: bounding_box_block_unit)
  then have s: "resolve_unit_scale a g p ''AUTO'' \<in> {1, 0.001, 0.01}"
    by (auto simp: resolve_unit_scale_def UNIT_SCALES_def Let_def)
  from u have n: "estimated_unit (fst (get_model_info a g p)) \<notin> {''MICROMETERS'', ''INCHES'', ''FEET''}"
    by auto
  from s have m: "resolve_unit_scale a g p ''AUTO'' \<notin> {0.000001, 0.0254, 0.3048}"
    by auto
  have e: "estimated_unit (fst (get_model_info False quiet_gmsh step_file)) = ''UNKNOWN''"
    by (simp add: get_model_info_def initial_info_def)
  show ?thesis
    using u s n m e by (simp add: box_gmsh_estimate estimate_unit_def)
qed

subsection \<open>Conversion\<close>

lemma convert_names_loop_log:
  "convert_names_loop g es names = (r, l) \<Longrightarrow> SetNumber k v \<notin> set l"
  by (induction g es names arbitrary: r l rule: convert_names_loop.induct)
     (auto split: option.splits prod.splits simp: Let_def)

lemma extract_part_names_log:
  "extract_part_names g = (r, l) \<Longrightarrow> SetNumber k v \<notin> set l"
  unfolding extract_part_names_def
  by (auto split: option.splits prod.splits dest: convert_names_loop_log)

lemma healing_key_in_load_calls:
  "SetNumber k v \<in> set (convert_load_calls p heal) \<Longrightarrow>
   heal \<and> lower (path_suffix p) \<in> set brep_extensions"
  unfolding convert_load_calls_def Let_def
  by (auto split: if_splits)

lemma healing_key_not_elsewhere:
  assumes "k \<in> healing_keys"
  shows "SetNumber k v \<notin> set [Initialize, SetNumber ''General.Terminal'' 0, ModelAdd ''cad_import'']"
    and "SetNumber k v \<notin> set (mesh_option_calls mn mx alg opt)"
  using assms by (auto simp: healing_keys_def mesh_option_calls_def)

lemma convert_log_healing:
  assumes "SetNumber k v \<in> set (snd (convert_to_stl a g p out mn mx alg opt heal))"
    and "k \<in> healing_keys"
  shows "SetNumber k v \<in> set (convert_load_calls p heal)"
proof -
  note h = healing_key_not_elsewhere [OF assms(2)]
  show ?thesis
    using assms(1) h [of v] h(2) [of v mn mx alg opt]
    unfolding convert_to_stl_def conversion_error_def finalize_and_fail_def
    by (auto split: if_splits option.splits prod.splits
        dest!: run_calls_subset extract_part_names_log)
qed

lemma convert_to_stl_merge_ignores_healing:
  assumes "lower (path_suffix p) \<notin> set brep_extensions"
  shows "convert_to_stl a g p out mn mx alg opt True = convert_to_stl a g p out mn mx alg opt False"
proof -
  have eq: "convert_load_calls p True = convert_load_calls p False"
    using assms by (simp add: convert_load_calls_def Let_def)
  show ?thesis
    unfolding convert_to_stl_def eq by (rule refl)
qed

text \<open>
  Claim C10. In \<^verbatim>\<open>convert_to_stl\<close> one of the four geometry-healing options is set only
  when healing is requested and the lower-cased extension of the input file is one of
  \<^verbatim>\<open>.step .stp .iges .igs .brep .brp\<close>; for any other extension the healing flag has no
  effect on the result or on the calls made.
\<close>

theorem healing_only_for_brep:
  "(k \<in> healing_keys \<and> SetNumber k v \<in> set (snd (convert_to_stl a g p out mn mx alg opt heal))
      \<longrightarrow> heal \<and> lower (path_suffix p) \<in> set brep_extensions) \<and>
   (lower (path_suffix p) \<notin> set brep_extensions
      \<longrightarrow> convert_to_stl a g p out mn mx alg opt True = convert_to_stl a g p out mn mx alg opt False)"
proof (intro conjI impI)
  assume "k \<in> healing_keys \<and> SetNumber k v \<in> set (snd (convert_to_stl a g p out mn mx alg opt heal))"
  then have "SetNumber k v \<in> set (convert_load_calls p heal)"
    using convert_log_healing by blast
  then show "heal" and "lower (path_suffix p) \<in> set brep_extensions"
    using healing_key_in_load_calls by blast+
next
  assume "lower (path_suffix p) \<notin> set brep_extensions"
  then show "convert_to_stl a g p out mn mx alg opt True = convert_to_stl a g p out mn mx alg opt False"
    by (rule convert_to_stl_merge_ignores_healing)
qed

lemma quiet_convert_log:
  "snd (convert_to_stl True quiet_gmsh step_file ''/tmp/out.stl'' 0.1 10 6 False True) =
     [Initialize, SetNumber ''General.Terminal'' 0, ModelAdd ''cad_import'',
      SetNumber ''Geometry.OCCFixDegenerated'' 1, SetNumber ''Geometry.OCCFixSmallEdges'' 1,
      SetNumber ''Geometry.OCCFixSmallFaces'' 1, SetNumber ''Geometry.OCCSewFaces'' 1,
      ImportShapes ''/cad/model.STEP'', Synchronize, GetEntities,
      SetNumber ''Mesh.CharacteristicLengthMin'' 0.1, SetNumber ''Mesh.CharacteristicLengthMax'' 10,
      SetNumber ''Mesh.Algorithm'' 6, Generate 2, Write ''/tmp/out.stl'', Finalize]"
  by (simp add: convert_to_stl_def quiet_gmsh_def step_file_def convert_load_calls_def
      brep_extensions_def lower_def lower_char_def extract_part_names_def mesh_option_calls_def Let_def)

theorem healing_only_for_brep_witness:
  "SetNumber ''Geometry.OCCSewFaces'' 1
     \<in> set (snd (convert_to_stl True quiet_gmsh step_file ''/tmp/out.stl'' 0.1 10 6 False True)) \<and>
   lower (path_suffix step_file) \<in> set brep_extensions \<and>
   lower (path_suffix mesh_file) \<notin> set brep_extensions \<and>
   convert_to_stl True quiet_gmsh mesh_file ''/tmp/out.stl'' 0.1 10 6 False True
     = convert_to_stl True quiet_gmsh mesh_file ''/tmp/out.stl'' 0.1 10 6 False False"
  using healing_only_for_brep [of "''Geometry.OCCSewFaces''" 1 True quiet_gmsh step_file
      "''/tmp/out.stl''" "0.1" 10 6 False True]
    healing_only_for_brep [of "''Geometry.OCCSewFaces''" 1 True quiet_gmsh mesh_file
      "''/tmp/out.stl''" "0.1" 10 6 False True]
  by (simp add: quiet_convert_log healing_keys_def mesh_file_def brep_extensions_def lower_def lower_char_def)

subsection \<open>Part names\<close>

text \<open>
  When no \<^verbatim>\<open>getEntityName\<close> call raises, \<^verbatim>\<open>get_model_info\<close> returns the non-empty
  entity names in order of first appearance, and a successful \<^verbatim>\<open>convert_to_stl\<close>
  returns all of them, one per named entity. Whether the conversion succeeds does not
  depend on the name queries.
\<close>

lemma first_occurrences_Nil [simp]: "first_occurrences [] = []"
  by (simp add: first_occurrences_def)

lemma remdups_snoc:
  "remdups (ys @ [x]) = remdups (filter (\<lambda>y. y \<noteq> x) ys) @ [x]"
  by (induction ys) auto

lemma first_occurrences_Cons:
  "first_occurrences (x # xs) = x # first_occurrences (filter (\<lambda>y. y \<noteq> x) xs)"
  by (simp add: first_occurrences_def remdups_snoc rev_filter)

lemma info_names_loop_new:
  assumes "raises g (GetEntityName dm tag) = None"
    and "getEntityName g dm tag \<noteq> [] \<and> getEntityName g dm tag \<notin> set acc"
  shows "fst (info_names_loop g ((dm, tag) # es) acc) =
           fst (info_names_loop g es (acc @ [getEntityName g dm tag]))"
  using assms by (simp add: Let_def split: prod.splits)

lemma info_names_loop_old:
  assumes "raises g (GetEntityName dm tag) = None"
    and "\<not> (getEntityName g dm tag \<noteq> [] \<and> getEntityName g dm tag \<notin> set acc)"
  shows "fst (info_names_loop g ((dm, tag) # es) acc) = fst (info_names_loop g es acc)"
  using assms by (auto simp: Let_def split: prod.splits)

lemma info_names_loop_first_occurrences:
  assumes "\<forall>e \<in> set es. raises g (GetEntityName (fst e) (snd e)) = None"
  shows "fst (info_names_loop g es acc) =
           acc @ first_occurrences (filter (\<lambda>n. n \<noteq> [] \<and> n \<notin> set acc)
                                      (map (\<lambda>e. getEntityName g (fst e) (snd e)) es))"
  using assms
proof (induction es arbitrary: acc)
  case Nil
  then show ?case by simp
next
  case (Cons e es)
  obtain dm tag where e: "e = (dm, tag)" by (cases e)
  define n where "n = getEntityName g dm tag"
  define rest where "rest = map (\<lambda>e. getEntityName g (fst e) (snd e)) es"
  from Cons.prems have r: "raises g (GetEntityName dm tag) = None"
    and rs: "\<forall>e \<in> set es. raises g (GetEntityName (fst e) (snd e)) = None"
    using e by simp_all
  have names: "map (\<lambda>e. getEntityName g (fst e) (snd e)) (e # es) = n # rest"
    by (simp add: e n_def rest_def)
  show ?case
  proof (cases "n \<noteq> [] \<and> n \<notin> set acc")
    case True
    have f: "filter (\<lambda>y. y \<noteq> n) (filter (\<lambda>m. m \<noteq> [] \<and> m \<notin> set acc) rest)
               = filter (\<lambda>m. m \<noteq> [] \<and> m \<notin> set (acc @ [n])) rest"
      by (auto intro: filter_cong)
    have "fst (info_names_loop g (e # es) acc) = fst (info_names_loop g es (acc @ [n]))"
      unfolding e n_def by (rule info_names_loop_new [OF r True [unfolded n_def]])
    also have "\<dots> = (acc @ [n]) @ first_occurrences (filter (\<lambda>m. m \<noteq> [] \<and> m \<notin> set (acc @ [n])) rest)"
      unfolding rest_def by (rule Cons.IH [OF rs])
    also have "\<dots> = acc @ first_occurrences (n # filter (\<lambda>m. m \<noteq> [] \<and> m \<notin> set acc) rest)"
      unfolding first_occurrences_Cons f by simp
    also have "n # filter (\<lambda>m. m \<noteq> [] \<and> m \<notin> set acc) rest
                 = filter (\<lambda>m. m \<noteq> [] \<and> m \<notin> set acc) (n # rest)"
      using True by simp
    finally show ?thesis unfolding names .
  next
    case False
    have "fst (info_names_loop g (e # es) acc) = fst (info_names_loop g es acc)"
      unfolding e by (rule info_names_loop_old [OF r False [unfolded n_def]])
    also have "\<dots> = acc @ first_occurrences (filter (\<lambda>m. m \<noteq> [] \<and> m \<notin> set acc) rest)"
      unfolding rest_def by (rule Cons.IH [OF rs])
    also have "filter (\<lambda>m. m \<noteq> [] \<and> m \<notin> set acc) rest
                 = filter (\<lambda>m. m \<noteq> [] \<and> m \<notin> set acc) (n # rest)"
      using False by auto
    finally show ?thesis unfolding names .
  qed
qed

lemma convert_names_loop_all:
  assumes "\<forall>e \<in> set es. raises g (GetEntityName (fst e) (snd e)) = None"
  shows "fst (convert_names_loop g es acc) =
           acc @ filter (\<lambda>n. n \<noteq> []) (map (\<lambda>e. getEntityName g (fst e) (snd e)) es)"
  using assms
  by (induction g es acc rule: convert_names_loop.induct)
     (auto simp: Let_def split: prod.splits)

lemma part_names_count_entities [simp]:
  "part_names (count_entities es info) = part_names info"
  by (induction es info rule: count_entities.induct) auto

lemma bounding_box_block_part_names:
  "bounding_box_block g es info = (info1, l) \<Longrightarrow> part_names info1 = part_names info"
  unfolding bounding_box_block_def Let_def
  by (auto split: option.splits prod.splits if_splits)

lemma get_model_info_part_names:
  assumes "fst (run_calls g [Initialize, SetNumber ''General.Terminal'' 0, ModelAdd ''info'']) = None"
    and "fst (run_calls g (info_load_calls p)) = None"
    and "raises g GetEntities = None"
    and "\<forall>e \<in> set (getEntities g). raises g (GetEntityName (fst e) (snd e)) = None"
  shows "part_names (fst (get_model_info True g p)) =
           first_occurrences (filter (\<lambda>n. n \<noteq> [])
             (map (\<lambda>e. getEntityName g (fst e) (snd e)) (getEntities g)))"
proof -
  have "part_names (fst (get_model_info True g p)) = fst (info_names_loop g (getEntities g) [])"
    using assms(1-3) unfolding get_model_info_def Let_def
    by (auto split: option.splits prod.splits simp: initial_info_def
        dest!: bounding_box_block_part_names)
  then show ?thesis
    using info_names_loop_first_occurrences [OF assms(4), of "[]"] by simp
qed

lemma convert_to_stl_success:
  "fst (fst (convert_to_stl a g p out mn mx alg opt heal)) =
     (a \<and> fst (run_calls g [Initialize, SetNumber ''General.Terminal'' 0, ModelAdd ''cad_import'']) = None
        \<and> fst (run_calls g (convert_load_calls p heal)) = None
        \<and> fst (run_calls g (mesh_option_calls mn mx alg opt)) = None
        \<and> raises g (Generate 2) = None \<and> raises g (Write out) = None
        \<and> raises g Finalize = None)"
  unfolding convert_to_stl_def conversion_error_def finalize_and_fail_def
  by (auto split: option.splits prod.splits)

lemma convert_to_stl_part_names:
  assumes "fst (fst (convert_to_stl True g p out mn mx alg opt heal))"
    and "raises g GetEntities = None"
    and "\<forall>e \<in> set (getEntities g). raises g (GetEntityName (fst e) (snd e)) = None"
  shows "snd (snd (fst (convert_to_stl True g p out mn mx alg opt heal))) =
           filter (\<lambda>n. n \<noteq> []) (map (\<lambda>e. getEntityName g (fst e) (snd e)) (getEntities g))"
proof -
  have "snd (snd (fst (convert_to_stl True g p out mn mx alg opt heal)))
          = fst (convert_names_loop g (getEntities g) [])"
    using assms(1,2)
    unfolding convert_to_stl_def conversion_error_def finalize_and_fail_def extract_part_names_def
    by (auto split: option.splits prod.splits)
  then show ?thesis
    using convert_names_loop_all [OF assms(3), of "[]"] by simp
qed

text \<open>
  Claim C6 at a model in which two volumes are both named \<^verbatim>\<open>Bracket\<close>:
  \<^verbatim>\<open>convert_to_stl\<close> returns the name twice, \<^verbatim>\<open>get_model_info\<close> once.
\<close>

theorem convert_to_stl_duplicate_names:
  "fst (convert_to_stl True twin_gmsh step_file ''/tmp/out.stl'' 0.1 10 6 False False)
     = (True, ''Conversion successful'', [''Bracket'', ''Bracket'']) \<and>
   part_names (fst (get_model_info True twin_gmsh step_file)) = [''Bracket'']"
  by (simp add: convert_to_stl_def get_model_info_def twin_gmsh_def quiet_gmsh_def step_file_def
      convert_load_calls_def info_load_calls_def brep_extensions_def lower_def lower_char_def
      extract_part_names_def mesh_option_calls_def bounding_box_block_def initial_info_def Let_def)

subsection \<open>Unit scale\<close>

lemma UNIT_SCALES_table:
  "UNIT_SCALES ''MICROMETERS'' = Some 0.000001"
  "UNIT_SCALES ''MILLIMETERS'' = Some 0.001"
  "UNIT_SCALES ''CENTIMETERS'' = Some 0.01"
  "UNIT_SCALES ''METERS'' = Some 1"
  "UNIT_SCALES ''INCHES'' = Some 0.0254"
  "UNIT_SCALES ''FEET'' = Some 0.3048"
  "UNIT_SCALES ''UNKNOWN'' = None"
  "UNIT_SCALES ''AUTO'' = None"
  by (simp_all add: UNIT_SCALES_def)

lemma resolve_unit_scale_explicit:
  "src_unit \<noteq> ''AUTO'' \<Longrightarrow> UNIT_SCALES src_unit = Some sc \<Longrightarrow>
   resolve_unit_scale a g p src_unit = sc"
  by (simp add: resolve_unit_scale_def)

lemma resolve_unit_scale_auto:
  "UNIT_SCALES (estimated_unit (fst (get_model_info a g p))) = Some sc \<Longrightarrow>
   resolve_unit_scale a g p ''AUTO'' = sc"
  by (simp add: resolve_unit_scale_def Let_def)

lemma resolve_unit_scale_unknown:
  "estimated_unit (fst (get_model_info a g p)) = ''UNKNOWN'' \<Longrightarrow>
   resolve_unit_scale a g p ''AUTO'' = 1"
  by (simp add: resolve_unit_scale_def Let_def UNIT_SCALES_table)

text \<open>
  Claim C2 at a file whose bounding box the engine does not return, and at a file whose
  model has no entities: the estimate is \<^verbatim>\<open>UNKNOWN\<close>, which is not a key of the table,
  and the scale under automatic detection stays at its initial value 1.0, not the
  millimeter scale 0.001.
\<close>

theorem unit_scale_unknown_is_one:
  "estimated_unit (fst (get_model_info True no_bbox_gmsh step_file)) = ''UNKNOWN'' \<and>
   resolve_unit_scale True no_bbox_gmsh step_file ''AUTO'' = 1 \<and>
   estimated_unit (fst (get_model_info True quiet_gmsh step_file)) = ''UNKNOWN'' \<and>
   resolve_unit_scale True quiet_gmsh step_file ''AUTO'' = 1 \<and>
   UNIT_SCALES ''MILLIMETERS'' = Some 0.001"
proof -
  have u: "estimated_unit (fst (get_model_info True no_bbox_gmsh step_file)) = ''UNKNOWN''"
    by (simp add: get_model_info_def no_bbox_gmsh_def box_gmsh_def quiet_gmsh_def step_file_def
        info_load_calls_def brep_extensions_def lower_def lower_char_def bounding_box_block_def
        initial_info_def Let_def)
  have v: "estimated_unit (fst (get_model_info True quiet_gmsh step_file)) = ''UNKNOWN''"
    by (simp add: get_model_info_def quiet_gmsh_def step_file_def
        info_load_calls_def brep_extensions_def lower_def lower_char_def bounding_box_block_def
        initial_info_def Let_def)
  show ?thesis
    using u v resolve_unit_scale_unknown [OF u] resolve_unit_scale_unknown [OF v]
    by (simp add: UNIT_SCALES_table)
qed

subsection \<open>Processing one file\<close>

lemma import_phase_frame:
  assumes "import_phase fw ip out sc s = (r, s1)"
  shows "current_index s1 = current_index s \<and> files_to_process s1 = files_to_process s \<and>
         target_collection s1 = target_collection s \<and> temp_files s1 = temp_files s \<and>
         reports s1 = reports s \<and> fs s1 = fs s \<and> (r = ''OK'' \<or> r = ''ERROR'')"
  using assms unfolding import_phase_def Let_def
  by (auto split: if_splits option.splits prod.splits)

lemma import_phase_error:
  assumes "import_phase fw ip out sc s = (''ERROR'', s1)"
  shows "all_imported_objects s1 = all_imported_objects s"
  using assms unfolding import_phase_def Let_def
  by (auto split: if_splits option.splits prod.splits)

lemma convert_phase_frame:
  assumes "convert_phase w fw ip out s = (r, s1)"
  shows "current_index s1 = current_index s \<and> files_to_process s1 = files_to_process s \<and>
         target_collection s1 = target_collection s \<and> temp_files s1 = temp_files s \<and>
         (r = ''OK'' \<or> r = ''ERROR'')"
  using assms unfolding convert_phase_def Let_def
  by (auto split: if_splits prod.splits dest!: import_phase_frame)

lemma convert_phase_error:
  assumes "convert_phase w fw ip out s = (''ERROR'', s1)"
  shows "all_imported_objects s1 = all_imported_objects s"
  using assms unfolding convert_phase_def Let_def
  by (auto split: if_splits prod.splits dest!: import_phase_error)

lemma convert_phase_reports:
  assumes "convert_phase w fw ip out s = (r, s1)"
    and "c = fst (convert_to_stl (gmsh_available w) (conv_gmsh fw) ip out (mesh_min s) (mesh_max s)
                   (mesh_algorithm s) (optimize_mesh s) (healing s))"
  shows "reports s1 = reports s
           @ (if fst c then []
              else [(''WARNING'', ''Failed to convert '' @ path_name ip @ '': '' @ fst (snd c))])"
  using assms unfolding convert_phase_def Let_def
  by (auto split: if_splits prod.splits dest!: import_phase_frame)

text \<open>
  The failures of one file: a failure result of the conversion, a missing output file, an
  exception of the importer, and an import that creates no new object all end the step
  with \<^verbatim>\<open>'ERROR'\<close>.
\<close>

lemma import_phase_failure:
  assumes "snd (stl_import fw out (global_scale s * sc)) \<noteq> None \<or>
           filter (\<lambda>obj. obj \<notin> set (data_objects s))
             (data_objects s @ fst (stl_import fw out (global_scale s * sc))) = []"
  shows "fst (import_phase fw ip out sc s) = ''ERROR''"
  using assms unfolding import_phase_def Let_def
  by (auto split: option.splits prod.splits)

lemma convert_phase_failure:
  assumes "\<not> fst (fst (convert_to_stl (gmsh_available w) (conv_gmsh fw) ip out (mesh_min s)
                          (mesh_max s) (mesh_algorithm s) (optimize_mesh s) (healing s))) \<or>
           \<not> output_exists fw"
  shows "fst (convert_phase w fw ip out s) = ''ERROR''"
  using assms unfolding convert_phase_def Let_def
  by (auto split: prod.splits)

lemma process_current_file_frame:
  assumes "process_current_file w s = Inr (r, s1)"
  shows "current_index s1 = current_index s \<and> files_to_process s1 = files_to_process s \<and>
         target_collection s1 = target_collection s \<and>
         (\<exists>extra. temp_files s1 = temp_files s @ extra) \<and> (r = ''OK'' \<or> r = ''ERROR'')"
  using assms unfolding process_current_file_def Let_def
  by (auto split: if_splits outcome.splits option.splits dest!: convert_phase_frame)

lemma process_current_file_error:
  assumes "process_current_file w s = Inr (''ERROR'', s1)"
  shows "all_imported_objects s1 = all_imported_objects s"
  using assms unfolding process_current_file_def Let_def
  by (auto split: if_splits outcome.splits option.splits dest!: convert_phase_error)

lemma process_current_file_returns:
  assumes "current_index s < length (files_to_process s)"
  shows "\<exists>r s1. process_current_file w s = Inr (r, s1)"
  using assms unfolding process_current_file_def Let_def
  by (auto split: outcome.splits option.splits)

text \<open>A temporary file that was created and closed is in the clean-up list after the step.\<close>

lemma process_current_file_registers:
  assumes "process_current_file w s = Inr (r, s1)"
    and "mkstemp (file_worlds w (current_index s)) = Returns p"
    and "os_close (file_worlds w (current_index s)) = None"
  shows "p \<in> set (temp_files s1)"
  using assms unfolding process_current_file_def Let_def
  by (auto split: if_splits dest!: convert_phase_frame)

subsection \<open>The modal loop\<close>

lemma finish_result:
  "snd (finish w s cancelled) = (if cancelled then CANCELLED else FINISHED)"
  by (simp add: finish_def Let_def split: option.splits)

lemma finish_fields:
  "temp_files (fst (finish w s c)) = []"
  "fs (fst (finish w s c)) = cleanup_temp_files (unlink_fails w) (temp_files s) (fs s)"
  "current_index (fst (finish w s c)) = current_index s"
  "all_imported_objects (fst (finish w s c)) = all_imported_objects s"
  "data_objects (fst (finish w s c)) = data_objects s"
  "collection_objects (fst (finish w s c)) = collection_objects s"
  by (simp_all add: finish_def Let_def split: option.splits)

lemma finish_removes_empty_collection:
  assumes "target_collection s = Some c" and "collection_objects s c = []"
  shows "data_collections (fst (finish w s True)) = removeAll c (data_collections s)"
  using assms by (simp add: finish_def Let_def)

lemma cleanup_temp_files_eq:
  "cleanup_temp_files fails ps files = files - {p \<in> set ps. \<not> fails p}"
  by (induction ps arbitrary: files) auto

lemma modal_timer_step:
  assumes "current_index s < length (files_to_process s)"
  shows "\<exists>s1. modal w s TIMER = Inr (s1, RUNNING_MODAL) \<and>
              current_index s1 = current_index s + 1 \<and>
              files_to_process s1 = files_to_process s"
proof -
  obtain r s0 where p: "process_current_file w s = Inr (r, s0)"
    using process_current_file_returns [OF assms] by blast
  from process_current_file_frame [OF p]
  have "current_index s0 = current_index s" "files_to_process s0 = files_to_process s"
    by simp_all
  then show ?thesis
    using assms p by (simp add: modal_def Let_def)
qed

lemma modal_timer_done:
  assumes "current_index s \<ge> length (files_to_process s)"
  shows "modal w s TIMER = Inr (finish w s False)"
  using assms by (simp add: modal_def)

lemma run_timer_finishes:
  assumes "n = length (files_to_process s) - current_index s"
  shows "\<exists>s1. run w s (replicate (Suc n) TIMER) = Inr (s1, FINISHED)"
  using assms
proof (induction n arbitrary: s)
  case 0
  then have "current_index s \<ge> length (files_to_process s)" by simp
  then have "modal w s TIMER = Inr (finish w s False)" by (rule modal_timer_done)
  moreover have "snd (finish w s False) = FINISHED" by (simp add: finish_result)
  ultimately show ?case
    by (cases "finish w s False") simp
next
  case (Suc n)
  then have lt: "current_index s < length (files_to_process s)" by simp
  from modal_timer_step [OF lt] obtain s1 where
    m: "modal w s TIMER = Inr (s1, RUNNING_MODAL)" and
    i: "current_index s1 = current_index s + 1" and
    f: "files_to_process s1 = files_to_process s"
    by blast
  from Suc.prems i f have "n = length (files_to_process s1) - current_index s1" by simp
  from Suc.IH [OF this] obtain s2 where "run w s1 (replicate (Suc n) TIMER) = Inr (s2, FINISHED)"
    by blast
  then show ?case using m by simp
qed

text \<open>No event makes \<^verbatim>\<open>modal\<close> fail: the index is checked before the file list is read.\<close>

lemma modal_returns: "\<exists>s1 r. modal w s ev = Inr (s1, r)"
proof (cases "current_index s < length (files_to_process s)")
  case True
  then obtain res s0 where "process_current_file w s = Inr (res, s0)"
    using process_current_file_returns by blast
  then show ?thesis
    by (cases "finish w s True") (simp add: modal_def Let_def)
next
  case False
  then show ?thesis
    by (cases "finish w s True"; cases "finish w s False") (simp add: modal_def)
qed

lemma run_returns: "\<exists>s1 r. run w s evs = Inr (s1, r)"
proof (induction evs arbitrary: s)
  case Nil
  then show ?case by simp
next
  case (Cons ev evs)
  obtain s0 r0 where "modal w s ev = Inr (s0, r0)"
    using modal_returns by blast
  then show ?case using Cons.IH [of s0] by simp
qed

lemma modal_cases:
  assumes "modal w s ev = Inr (s1, r)"
  shows "(r = RUNNING_MODAL \<and> set (temp_files s) \<subseteq> set (temp_files s1)) \<or>
         (r = CANCELLED \<and> (s1, r) = finish w s True) \<or>
         (r = FINISHED \<and> (s1, r) = finish w s False)"
proof (cases ev)
  case ESC
  then have "(s1, r) = finish w s True" using assms by (simp add: modal_def)
  moreover from this have "r = CANCELLED"
    using finish_result [of w s True] by (metis snd_conv)
  ultimately show ?thesis by simp
next
  case OTHER
  then show ?thesis using assms by (simp add: modal_def)
next
  case TIMER
  show ?thesis
  proof (cases "current_index s < length (files_to_process s)")
    case False
    then have "(s1, r) = finish w s False" using assms TIMER by (simp add: modal_def)
    moreover from this have "r = FINISHED"
      using finish_result [of w s False] by (metis snd_conv)
    ultimately show ?thesis by simp
  next
    case True
    then obtain res s0 where p: "process_current_file w s = Inr (res, s0)"
      using process_current_file_returns by blast
    from process_current_file_frame [OF p] obtain extra where
      "temp_files s0 = temp_files s @ extra" by blast
    then show ?thesis
      using assms TIMER True p by (auto simp: modal_def Let_def)
  qed
qed

lemma run_deletes_temp_files:
  assumes "run w s evs = Inr (s1, r)" and "r \<noteq> RUNNING_MODAL"
  shows "temp_files s1 = [] \<and> (r = FINISHED \<or> r = CANCELLED) \<and>
         (\<forall>p \<in> set (temp_files s). \<not> unlink_fails w p \<longrightarrow> p \<notin> fs s1)"
  using assms
proof (induction evs arbitrary: s)
  case Nil
  then show ?case by simp
next
  case (Cons ev evs)
  from Cons.prems(1) obtain s0 r0 where m: "modal w s ev = Inr (s0, r0)"
    by (auto split: sum.splits)
  show ?case
  proof (cases "r0 = RUNNING_MODAL")
    case True
    then have "run w s0 evs = Inr (s1, r)" using Cons.prems(1) m by simp
    from Cons.IH [OF this Cons.prems(2)] modal_cases [OF m] True
    show ?thesis by auto
  next
    case False
    then have e: "s1 = s0" "r = r0" using Cons.prems(1) m by simp_all
    from modal_cases [OF m] False obtain c where
      f: "(s0, r0) = finish w s c" and "r0 = FINISHED \<or> r0 = CANCELLED"
      by auto
    from f have "s0 = fst (finish w s c)" by (metis fst_conv)
    then show ?thesis
      using e \<open>r0 = FINISHED \<or> r0 = CANCELLED\<close>
      by (simp add: finish_fields cleanup_temp_files_eq)
  qed
qed

text \<open>
  Claim C4. On both outcomes of \<^verbatim>\<open>_finish\<close> (\<^verbatim>\<open>FINISHED\<close> and \<^verbatim>\<open>CANCELLED\<close>) the
  list of temporary files is emptied and every registered temporary file is deleted
  unless its \<^verbatim>\<open>unlink\<close> raises, which is swallowed: the files on disk afterwards are
  the files before without the registered ones that can be deleted. An \<^verbatim>\<open>ESC\<close> event
  finishes with \<^verbatim>\<open>CANCELLED\<close> at once, later events are not looked at, the file index
  and the imported objects stay as they were, and a target collection without objects is
  removed. Every run of the modal loop that ends does so with \<^verbatim>\<open>FINISHED\<close> or
  \<^verbatim>\<open>CANCELLED\<close>, with an empty list of temporary files, and with the files that were
  registered at any state it started from deleted in the same way.
\<close>

theorem finish_cleans_up:
  "snd (finish w s cancelled) = (if cancelled then CANCELLED else FINISHED) \<and>
   temp_files (fst (finish w s cancelled)) = [] \<and>
   fs (fst (finish w s cancelled)) = fs s - {p \<in> set (temp_files s). \<not> unlink_fails w p} \<and>
   (\<forall>p \<in> set (temp_files s). \<not> unlink_fails w p \<longrightarrow> p \<notin> fs (fst (finish w s cancelled))) \<and>
   modal w s ESC = Inr (finish w s True) \<and>
   run w s (ESC # evs) = Inr (finish w s True) \<and>
   current_index (fst (finish w s True)) = current_index s \<and>
   all_imported_objects (fst (finish w s True)) = all_imported_objects s \<and>
   data_objects (fst (finish w s True)) = data_objects s \<and>
   (target_collection s = Some c \<and> collection_objects s c = []
      \<longrightarrow> c \<notin> set (data_collections (fst (finish w s True)))) \<and>
   (run w s evs1 = Inr (s1, r) \<and> r \<noteq> RUNNING_MODAL
      \<longrightarrow> (r = FINISHED \<or> r = CANCELLED) \<and> temp_files s1 = [] \<and>
          (\<forall>p \<in> set (temp_files s). \<not> unlink_fails w p \<longrightarrow> p \<notin> fs s1))"
proof -
  have m: "modal w s ESC = Inr (finish w s True)" by (simp add: modal_def)
  have "snd (finish w s True) = CANCELLED" by (simp add: finish_result)
  then have r: "run w s (ESC # evs) = Inr (finish w s True)"
    using m by (cases "finish w s True") simp
  have f: "fs (fst (finish w s cancelled)) = fs s - {p \<in> set (temp_files s). \<not> unlink_fails w p}"
    by (simp add: finish_fields cleanup_temp_files_eq)
  have c: "c \<notin> set (data_collections (fst (finish w s True)))"
    if "target_collection s = Some c \<and> collection_objects s c = []"
    using that finish_removes_empty_collection [of s c w] by simp
  have b: "(r = FINISHED \<or> r = CANCELLED) \<and> temp_files s1 = [] \<and>
          (\<forall>p \<in> set (temp_files s). \<not> unlink_fails w p \<longrightarrow> p \<notin> fs s1)"
    if "run w s evs1 = Inr (s1, r) \<and> r \<noteq> RUNNING_MODAL"
    using that run_deletes_temp_files [of w s evs1 s1 r] by blast
  show ?thesis
    using m r f c b by (simp add: finish_result finish_fields)
qed

theorem finish_cleans_up_witness:
  "snd (finish cancel_world cancel_state True) = CANCELLED \<and>
   snd (finish cancel_world cancel_state False) = FINISHED \<and>
   temp_files (fst (finish cancel_world cancel_state True)) = [] \<and>
   ''/tmp/a.stl'' \<in> set (temp_files cancel_state) \<and>
   ''/tmp/a.stl'' \<notin> fs (fst (finish cancel_world cancel_state True)) \<and>
   ''/tmp/a.stl'' \<notin> fs (fst (finish cancel_world cancel_state False)) \<and>
   fs (fst (finish cancel_world cancel_state True)) = {''/tmp/b.stl'', ''/cad/a.step''} \<and>
   run cancel_world cancel_state [ESC, TIMER, TIMER] = Inr (finish cancel_world cancel_state True) \<and>
   current_index (fst (finish cancel_world cancel_state True)) = 2 \<and>
   target_collection cancel_state = Some 7 \<and>
   7 \<notin> set (data_collections (fst (finish cancel_world cancel_state True)))"
proof -
  have t: "temp_files cancel_state = [''/tmp/a.stl'', ''/tmp/b.stl'']"
    "fs cancel_state = {''/tmp/a.stl'', ''/tmp/b.stl'', ''/cad/a.step''}"
    "target_collection cancel_state = Some 7"
    "collection_objects cancel_state 7 = []"
    "current_index cancel_state = 2"
    "unlink_fails cancel_world = (\<lambda>p. p = ''/tmp/b.stl'')"
    by (simp_all add: cancel_state_def cancel_world_def example_state_def)
  show ?thesis
    using finish_cleans_up [of cancel_world cancel_state True "[TIMER, TIMER]" 7
        "[ESC, TIMER, TIMER]" "fst (finish cancel_world cancel_state True)" CANCELLED]
      finish_cleans_up [of cancel_world cancel_state False "[TIMER, TIMER]" 7
        "[ESC, TIMER, TIMER]" "fst (finish cancel_world cancel_state True)" CANCELLED]
    by (auto simp: t)
qed

subsection \<open>A batch with a failing file\<close>

lemma box_gmsh_fields:
  "raises (box_gmsh d) = (\<lambda>c. None)"
  "getEntities (box_gmsh d) = [(3, 1)]"
  "getEntityName (box_gmsh d) = (\<lambda>dm tag. [])"
  "getBoundingBox (box_gmsh d) = (0, 0, 0, d, 0, 0)"
  by (simp_all add: box_gmsh_def quiet_gmsh_def)

lemma example_convert:
  "fst (convert_to_stl True (box_gmsh d) p out mn mx alg opt heal)
     = (True, ''Conversion successful'', [])"
  by (simp add: convert_to_stl_def run_calls_quiet [OF box_gmsh_fields(1)] box_gmsh_fields
      extract_part_names_def)

lemma example_unit_scale:
  "resolve_unit_scale True (box_gmsh 120) p ''AUTO'' = 0.01"
proof -
  have "estimated_unit (fst (get_model_info True (box_gmsh 120) p)) = ''CENTIMETERS''"
    by (simp add: get_model_info_def run_calls_quiet [OF box_gmsh_fields(1)] box_gmsh_fields
        bounding_box_block_def estimate_unit_def initial_info_def Let_def split: prod.splits)
  then show ?thesis
    using resolve_unit_scale_auto [of True "box_gmsh 120" p "0.01"] by (simp add: UNIT_SCALES_table)
qed

lemma example_convert_phase:
  assumes "source_unit s = ''AUTO''" and "out \<in> fs s"
  shows "convert_phase example_world (example_file tmp objs) p out s
           = import_phase (example_file tmp objs) p out 0.01 s"
proof -
  have "s\<lparr>fs := fs s\<rparr> = s" by simp
  then show ?thesis
    using assms
    by (simp add: convert_phase_def example_world_def example_file_def example_convert
        example_unit_scale)
qed

lemma example_world_fields:
  "file_worlds example_world 0 = example_file ''/tmp/a.stl'' [1]"
  "file_worlds example_world (Suc 0) = example_file ''/tmp/b.stl'' []"
  "file_worlds example_world (Suc (Suc 0)) = example_file ''/tmp/c.stl'' [3]"
  "unlink_fails example_world = (\<lambda>p. False)"
  "elapsed example_world = ''0.42''"
  by (simp_all add: example_world_def)

lemma example_file_fields:
  "mkstemp (example_file tmp objs) = Returns tmp"
  "os_close (example_file tmp objs) = None"
  "stl_import (example_file tmp objs) f sc = (objs, None)"
  by (simp_all add: example_file_def)

text \<open>
  The batch in which the conversion of the second file fails: one warning, for that file,
  the objects of the other two files, \<^verbatim>\<open>FINISHED\<close>, and no temporary file left.
\<close>

lemma missing_file_convert:
  "fst (convert_to_stl True missing_file_gmsh
          \<lparr>path_str = ''/cad/b.stp'', path_name = ''b.stp'', path_suffix = ''.stp''\<rparr>
          out mn mx alg opt heal)
     = (False, ''Failed to import CAD file: Could not open file'', [])"
  by (cases heal)
     (simp_all add: convert_to_stl_def missing_file_gmsh_def quiet_gmsh_def convert_load_calls_def
       brep_extensions_def lower_def lower_char_def finalize_and_fail_def Let_def)

lemma conversion_failure_world_fields:
  "gmsh_available conversion_failure_world = True"
  "file_worlds conversion_failure_world 0 = example_file ''/tmp/a.stl'' [1]"
  "file_worlds conversion_failure_world (Suc 0)
     = (example_file ''/tmp/b.stl'' [2])\<lparr>conv_gmsh := missing_file_gmsh\<rparr>"
  "file_worlds conversion_failure_world (Suc (Suc 0)) = example_file ''/tmp/c.stl'' [3]"
  "unlink_fails conversion_failure_world = (\<lambda>p. False)"
  "elapsed conversion_failure_world = ''0.42''"
  by (simp_all add: conversion_failure_world_def example_world_def)

lemma conversion_failure_convert_phase:
  assumes "source_unit s = ''AUTO''" and "out \<in> fs s"
  shows "convert_phase conversion_failure_world (example_file tmp objs) p out s
           = import_phase (example_file tmp objs) p out 0.01 s"
proof -
  have "s\<lparr>fs := fs s\<rparr> = s" by simp
  then show ?thesis
    using assms
    by (simp add: convert_phase_def conversion_failure_world_fields example_file_def
        example_convert example_unit_scale)
qed

lemma conversion_failure_phase:
  "convert_phase conversion_failure_world ((example_file tmp objs)\<lparr>conv_gmsh := missing_file_gmsh\<rparr>)
     \<lparr>path_str = ''/cad/b.stp'', path_name = ''b.stp'', path_suffix = ''.stp''\<rparr> out s
   = (''ERROR'',
      s\<lparr>logged := logged s
           @ [(''ERROR'', ''Conversion failed for /cad/b.stp: Failed to import CAD file: Could not open file'')],
        reports := reports s
           @ [(''WARNING'', ''Failed to convert b.stp: Failed to import CAD file: Could not open file'')]\<rparr>)"
  by (simp add: convert_phase_def conversion_failure_world_fields missing_file_convert)

lemma batch_with_conversion_failure:
  "map_sum id (\<lambda>(s, r). (r, all_imported_objects s, reports s, temp_files s, fs s))
     (run conversion_failure_world example_state [TIMER, TIMER, TIMER, TIMER])
   = Inr (FINISHED, [1, 3],
          [(''WARNING'', ''Failed to convert b.stp: Failed to import CAD file: Could not open file''),
           (''INFO'', ''Imported 2 object(s) from 3 files in 0.42s'')], [], {})"
  by (auto simp: modal_def process_current_file_def conversion_failure_convert_phase
      conversion_failure_phase import_phase_def
      finish_def example_state_def example_files_def conversion_failure_world_fields
      example_file_fields
      start_def stop_def update_def init_progress_def str_int_def str_nat.simps digit_char_def
      Let_def)

text \<open>
  Claim C1 at a batch of three files in which the import of the second file creates no
  object: the batch ends with \<^verbatim>\<open>FINISHED\<close>, the accumulated objects are those of the
  first and the third file, both temporary files are gone, and the only report is the
  final summary; no warning was reported and nothing was logged for the second file.
\<close>

theorem batch_with_silent_failure:
  "map_sum id (\<lambda>(s, r). (r, all_imported_objects s, reports s, logged s, temp_files s, fs s))
     (run example_world example_state [TIMER, TIMER, TIMER, TIMER])
   = Inr (FINISHED, [1, 3],
          [(''INFO'', ''Imported 2 object(s) from 3 files in 0.42s'')], [], [], {})"
  by (auto simp: modal_def process_current_file_def example_convert_phase import_phase_def
      finish_def example_state_def example_files_def example_world_fields example_file_fields
      start_def stop_def update_def init_progress_def str_int_def str_nat.simps digit_char_def
      Let_def)

end
